theory Spec2Isabelle
  imports Complex_Main
begin

section \<open>Python numbers and exceptions\<close>

text \<open>
  The module \<^verbatim>\<open>gensim/similarities/levenshtein.py\<close> computes with Python 3 numbers
  (\<^verbatim>\<open>python_requires='>=3.6'\<close> in \<^verbatim>\<open>setup.py\<close>). Python integers are unbounded and are
  modelled by \<^typ>\<open>int\<close> and \<^typ>\<open>nat\<close>. Python floats are modelled by the reals: every
  operation is the exact one, so rounding, overflow, infinities and NaN are outside the
  model. Two consequences are kept in view below. A float power that leaves the float
  range raises \<^verbatim>\<open>OverflowError\<close>, which the model does not have: a statement that a call
  returns is made for arguments that keep every power between 0 and 1 (a distance from 0
  to the longer length, a clamped threshold of at most \<open>alpha\<close>). And the floor of a float
  product can differ by one from the floor of the exact product: the theorems about the
  program use the value of the bound of line 102 only where floats compute it without
  rounding. The exceptions the module can raise are values of \<open>py_error\<close>; a function that
  can raise returns \<open>py_error + 'a\<close> with \<open>Inl\<close> for the exception.
\<close>

datatype py_error = AssertionError | ZeroDivisionError | TypeError

text \<open>
  The operator \<^verbatim>\<open>**\<close> on floats returns a float, except that a negative base with a
  non-integral exponent gives a complex number in Python 3. A value that may be either
  is a \<open>py_number\<close>.
\<close>

datatype py_number = PyFloat real | PyComplex complex

text \<open>
  \<^verbatim>\<open>x ** y\<close> for floats \<^verbatim>\<open>x\<close>, \<^verbatim>\<open>y\<close> (CPython's \<^verbatim>\<open>float_pow\<close>): anything to the power
  zero is \<^verbatim>\<open>1.0\<close>; zero to a negative power raises \<^verbatim>\<open>ZeroDivisionError\<close>, to a positive
  power is \<^verbatim>\<open>0.0\<close>; a negative base with an integral exponent keeps the sign of an odd
  power; a negative base with any other exponent is handed to the complex power, which
  returns the principal value, of modulus \<open>(- x) powr y\<close> and argument \<open>pi * y\<close>.
  CPython also raises \<^verbatim>\<open>OverflowError\<close> when the result leaves the float range, which can
  happen only for a base of modulus greater than 1 with a positive exponent or of modulus
  less than 1 with a negative one; the reals have no such bound.
\<close>

definition float_pow :: "real \<Rightarrow> real \<Rightarrow> py_error + py_number" where
  "float_pow x y =
     (if y = 0 then Inr (PyFloat 1)
      else if x = 0 then (if y < 0 then Inl ZeroDivisionError else Inr (PyFloat 0))
      else if x < 0 then
        (if of_int \<lfloor>y\<rfloor> = y
         then Inr (PyFloat ((if even \<lfloor>y\<rfloor> then 1 else - 1) * ((- x) powr y)))
         else Inr (PyComplex (Complex ((- x) powr y * cos (pi * y)) ((- x) powr y * sin (pi * y)))))
      else Inr (PyFloat (x powr y)))"

text \<open>\<^verbatim>\<open>alpha * z\<close> for a float \<^verbatim>\<open>alpha\<close> and a float or complex \<^verbatim>\<open>z\<close>.\<close>

fun float_mul :: "real \<Rightarrow> py_number \<Rightarrow> py_number" where
  "float_mul a (PyFloat x) = PyFloat (a * x)"
| "float_mul a (PyComplex z) = PyComplex (complex_of_real a * z)"

text \<open>
  \<^verbatim>\<open>xs[:n]\<close> for an integer \<^verbatim>\<open>n\<close>: the first \<^verbatim>\<open>n\<close> elements, and for a negative \<^verbatim>\<open>n\<close> all but
  the last \<^verbatim>\<open>-n\<close>.
\<close>

definition slice_to :: "'a list \<Rightarrow> int \<Rightarrow> 'a list" where
  "slice_to xs n = (if 0 \<le> n then take (nat n) xs else take (length xs - nat (- n)) xs)"

section \<open>The Levenshtein distance: \<^verbatim>\<open>levdist\<close>\<close>

text \<open>
  Modelled from the spec: \<^verbatim>\<open>Levenshtein.distance\<close> belongs to the third-party package
  \<^verbatim>\<open>python-Levenshtein\<close>, whose code is not part of the repository. It is the edit distance
  of the glossary: the minimum number of single-character insertions, deletions and
  substitutions that transform one string into the other, here by the usual recursion on
  the first characters.
\<close>

fun Levenshtein_distance :: "'a list \<Rightarrow> 'a list \<Rightarrow> nat" where
  "Levenshtein_distance [] ys = length ys"
| "Levenshtein_distance (x # xs) [] = Suc (length xs)"
| "Levenshtein_distance (x # xs) (y # ys) =
     min (min (Suc (Levenshtein_distance xs (y # ys))) (Suc (Levenshtein_distance (x # xs) ys)))
         (Levenshtein_distance xs ys + (if x = y then 0 else 1))"

text \<open>
  The argument \<^verbatim>\<open>max_distance\<close> of \<^verbatim>\<open>levdist\<close> is an int or a float; its default is
  \<^verbatim>\<open>float("inf")\<close>, which no distance exceeds.
\<close>

datatype distance_bound = Finite real | Infinity

fun exceeds :: "nat \<Rightarrow> distance_bound \<Rightarrow> bool" where
  "exceeds distance (Finite max_distance) = (real distance > max_distance)"
| "exceeds distance Infinity = False"

definition levdist :: "string \<Rightarrow> string \<Rightarrow> distance_bound \<Rightarrow> nat" where
  "levdist t1 t2 max_distance =
     (let distance = Levenshtein_distance t1 t2 in
      if exceeds distance max_distance then max (length t1) (length t2)
      else distance)"

section \<open>The Levenshtein similarity: \<^verbatim>\<open>levsim\<close>\<close>

text \<open>
  Lines 101 and 102 of the source, the clamping of \<^verbatim>\<open>min_similarity\<close> and the distance
  bound derived from it:
  \<^verbatim>\<open>min_similarity = float(max(min(min_similarity, 1.0), 0.0))\<close> and
  \<^verbatim>\<open>max_distance = int(floor(max_lengths * (1 - (min_similarity / alpha) ** (1 / beta))))\<close>.
  Both divisions raise \<^verbatim>\<open>ZeroDivisionError\<close> on a zero divisor, and \<^verbatim>\<open>floor\<close> raises
  \<^verbatim>\<open>TypeError\<close> on a complex number. The floor is taken of the exact product here; the
  float product can fall just below an integer that the exact product reaches.
\<close>

definition levsim_max_distance :: "nat \<Rightarrow> real \<Rightarrow> real \<Rightarrow> real \<Rightarrow> py_error + int" where
  "levsim_max_distance max_lengths alpha beta min_similarity =
     (let min_similarity = max (min min_similarity 1) 0 in
      if alpha = 0 then Inl ZeroDivisionError
      else if beta = 0 then Inl ZeroDivisionError
      else
        (case float_pow (min_similarity / alpha) (1 / beta) of
           Inl e \<Rightarrow> Inl e
         | Inr (PyComplex z) \<Rightarrow> Inl TypeError
         | Inr (PyFloat p) \<Rightarrow> Inr \<lfloor>real max_lengths * (1 - p)\<rfloor>))"

text \<open>
  \<^verbatim>\<open>levsim(t1, t2, alpha, beta, min_similarity, distance)\<close>; \<^verbatim>\<open>distance=None\<close> is \<open>None\<close>.
  The two \<^verbatim>\<open>assert\<close> statements come first, then the case of two empty terms, then the
  distance bound (computed whether or not a distance was supplied), then the score.
\<close>

definition levsim ::
  "string \<Rightarrow> string \<Rightarrow> real \<Rightarrow> real \<Rightarrow> real \<Rightarrow> int option \<Rightarrow> py_error + py_number" where
  "levsim t1 t2 alpha beta min_similarity distance =
     (if \<not> alpha \<ge> 0 then Inl AssertionError
      else if \<not> beta \<ge> 0 then Inl AssertionError
      else
        (let max_lengths = max (length t1) (length t2) in
         if max_lengths = 0 then Inr (PyFloat 1)
         else
           (case levsim_max_distance max_lengths alpha beta min_similarity of
              Inl e \<Rightarrow> Inl e
            | Inr max_distance \<Rightarrow>
                (let distance =
                   (case distance of
                      None \<Rightarrow> int (levdist t1 t2 (Finite (real_of_int max_distance)))
                    | Some d \<Rightarrow> d)
                 in
                   (case float_pow (1 - real_of_int distance * 1 / real max_lengths) beta of
                      Inl e \<Rightarrow> Inl e
                    | Inr p \<Rightarrow> Inr (float_mul alpha p))))))"

section \<open>The index: \<^verbatim>\<open>LevenshteinSimilarityIndex\<close>\<close>

text \<open>
  The fields the constructor sets. \<^verbatim>\<open>self.words\<close> is the list of the dictionary's terms;
  the alphabet and the trie are built from it by the third-party package \<^verbatim>\<open>pyffs\<close>.
\<close>

record LevenshteinSimilarityIndex =
  self_alpha :: real
  self_beta :: real
  self_threshold :: real
  self_max_distance :: int
  self_words :: "string list"

text \<open>
  The list comprehension of \<^verbatim>\<open>most_similar\<close> over the pairs \<^verbatim>\<open>(error, t2)\<close> that the
  traversal yields: the pairs with \<^verbatim>\<open>t1 != t2\<close> are scored by \<^verbatim>\<open>levsim\<close> with
  \<^verbatim>\<open>distance=error\<close>, in order; the first exception ends the comprehension.
\<close>

fun similarities ::
  "LevenshteinSimilarityIndex \<Rightarrow> string \<Rightarrow> (int \<times> string) list \<Rightarrow>
     py_error + (py_number \<times> string) list" where
  "similarities self t1 [] = Inr []"
| "similarities self t1 ((error, t2) # rest) =
     (if t1 \<noteq> t2 then
        (case levsim t1 t2 (self_alpha self) (self_beta self) (self_threshold self) (Some error) of
           Inl e \<Rightarrow> Inl e
         | Inr sim \<Rightarrow>
             (case similarities self t1 rest of
                Inl e \<Rightarrow> Inl e
              | Inr sims \<Rightarrow> Inr ((sim, t2) # sims)))
      else similarities self t1 rest)"

text \<open>
  The second comprehension, \<^verbatim>\<open>[(t2, sim) for sim, t2 in similarities if sim > 0]\<close>;
  comparing a complex number with \<^verbatim>\<open>0\<close> raises \<^verbatim>\<open>TypeError\<close>.
\<close>

fun positive_similarities :: "(py_number \<times> string) list \<Rightarrow> py_error + (string \<times> real) list" where
  "positive_similarities [] = Inr []"
| "positive_similarities ((PyComplex z, t2) # rest) = Inl TypeError"
| "positive_similarities ((PyFloat sim, t2) # rest) =
     (case positive_similarities rest of
        Inl e \<Rightarrow> Inl e
      | Inr most_similar \<Rightarrow> Inr (if sim > 0 then (t2, sim) # most_similar else most_similar))"

text \<open>
  \<^verbatim>\<open>most_similar(self, t1, topn)\<close>. The first argument stands for the third-party search:
  \<open>intersection k t1 ws\<close> is the list of pairs that
  \<^verbatim>\<open>trie_automaton_intersection(LevenshteinAutomaton(k, t1, alphabet), Trie(ws, alphabet), True)\<close>
  yields. \<^verbatim>\<open>sorted\<close> is a stable sort by the key \<^verbatim>\<open>-item[1]\<close>, as \<open>sort_key\<close> is.
\<close>

definition most_similar ::
  "(int \<Rightarrow> string \<Rightarrow> string list \<Rightarrow> (int \<times> string) list) \<Rightarrow>
     LevenshteinSimilarityIndex \<Rightarrow> string \<Rightarrow> int \<Rightarrow> py_error + (string \<times> real) list" where
  "most_similar intersection self t1 topn =
     (case similarities self t1 (intersection (self_max_distance self) t1 (self_words self)) of
        Inl e \<Rightarrow> Inl e
      | Inr sims \<Rightarrow>
          (case positive_similarities sims of
             Inl e \<Rightarrow> Inl e
           | Inr most_similar \<Rightarrow>
               Inr (slice_to (sort_key (\<lambda>item. - snd item) most_similar) topn)))"

text \<open>
  Modelled from the spec: the search of \<^verbatim>\<open>pyffs\<close> (\<^verbatim>\<open>Trie\<close>, \<^verbatim>\<open>LevenshteinAutomaton\<close>,
  \<^verbatim>\<open>trie_automaton_intersection\<close>) is not part of the repository. By the spec it yields
  each vocabulary term within edit distance \<open>k\<close> of the query once, with its exact
  distance; the order is unspecified, here the order of the vocabulary.
\<close>

definition trie_automaton_intersection :: "int \<Rightarrow> string \<Rightarrow> string list \<Rightarrow> (int \<times> string) list" where
  "trie_automaton_intersection k t1 ws =
     map (\<lambda>t2. (int (Levenshtein_distance t1 t2), t2))
       (filter (\<lambda>t2. int (Levenshtein_distance t1 t2) \<le> k) (remdups ws))"

section \<open>Notions the properties are stated with\<close>

text \<open>
  The matches that count for the length of a result: the pairs of the traversal other
  than the query itself whose score is a float greater than zero.
\<close>

definition positive_matches ::
  "LevenshteinSimilarityIndex \<Rightarrow> string \<Rightarrow> (int \<times> string) list \<Rightarrow> (int \<times> string) list" where
  "positive_matches self t1 matches =
     filter (\<lambda>(error, t2). t2 \<noteq> t1 \<and>
        (case levsim t1 t2 (self_alpha self) (self_beta self) (self_threshold self) (Some error) of
           Inr (PyFloat sim) \<Rightarrow> 0 < sim
         | _ \<Rightarrow> False)) matches"

text \<open>
  Edit scripts, read from left to right: \<open>edits xs ys n\<close> holds when \<open>xs\<close> becomes \<open>ys\<close> by
  keeping characters and \<open>n\<close> single-character substitutions, deletions and insertions.
  The true Levenshtein distance is the least such \<open>n\<close>.
\<close>

inductive edits :: "'a list \<Rightarrow> 'a list \<Rightarrow> nat \<Rightarrow> bool" where
  empty: "edits [] [] 0"
| keep: "edits xs ys n \<Longrightarrow> edits (x # xs) (x # ys) n"
| substitute: "edits xs ys n \<Longrightarrow> edits (x # xs) (y # ys) (Suc n)"
| delete: "edits xs ys n \<Longrightarrow> edits (x # xs) ys (Suc n)"
| insert: "edits xs ys n \<Longrightarrow> edits xs (y # ys) (Suc n)"

code_pred edits .

text \<open>The index of the examples: four terms, \<open>alpha = beta = 1\<close>, threshold 0, radius 1.\<close>

definition example_index :: LevenshteinSimilarityIndex where
  "example_index =
     \<lparr>self_alpha = 1, self_beta = 1, self_threshold = 0, self_max_distance = 1,
      self_words = [''dog'', ''bat'', ''cat'', ''cats'']\<rparr>"

text \<open>
  An index with a match of score zero: for the query \<^verbatim>\<open>a\<close> the term \<^verbatim>\<open>b\<close> is at distance 1
  and the longer length is 1.
\<close>

definition zero_score_index :: LevenshteinSimilarityIndex where
  "zero_score_index =
     \<lparr>self_alpha = 1, self_beta = 1, self_threshold = 0, self_max_distance = 1,
      self_words = [''a'', ''b'', ''ab'']\<rparr>"

section \<open>The edit distance\<close>

lemma Levenshtein_distance_Nil2: "Levenshtein_distance xs [] = length xs"
  by (cases xs) simp_all

lemma Levenshtein_distance_le_max:
  "Levenshtein_distance xs ys \<le> max (length xs) (length ys)"
proof (induction xs ys rule: Levenshtein_distance.induct)
  case (1 ys)
  show ?case by simp
next
  case (2 x xs)
  show ?case by simp
next
  case (3 x xs y ys)
  have "Levenshtein_distance (x # xs) (y # ys) \<le> Levenshtein_distance xs ys + 1"
    by (simp add: min_le_iff_disj)
  also have "\<dots> \<le> max (length xs) (length ys) + 1" using "3.IH"(3) by simp
  finally show ?case by simp
qed

lemma edits_Nil1: "edits [] ys (length ys)"
  by (induction ys) (auto intro: edits.intros)

lemma edits_Nil2: "edits xs [] (length xs)"
  by (induction xs) (auto intro: edits.intros)

text \<open>The recursion computes the cost of an edit script, and no script is cheaper.\<close>

lemma edits_Levenshtein_distance: "edits xs ys (Levenshtein_distance xs ys)"
proof (induction xs ys rule: Levenshtein_distance.induct)
  case (1 ys)
  show ?case by (simp add: edits_Nil1)
next
  case (2 x xs)
  show ?case using edits_Nil2[of "x # xs"] by simp
next
  case (3 x xs y ys)
  let ?a = "Suc (Levenshtein_distance xs (y # ys))"
  let ?b = "Suc (Levenshtein_distance (x # xs) ys)"
  let ?c = "Levenshtein_distance xs ys + (if x = y then 0 else 1)"
  have a: "edits (x # xs) (y # ys) ?a" using "3.IH"(1) by (rule edits.delete)
  have b: "edits (x # xs) (y # ys) ?b" using "3.IH"(2) by (rule edits.insert)
  have c: "edits (x # xs) (y # ys) ?c"
    using "3.IH"(3) by (auto intro: edits.keep edits.substitute)
  have "Levenshtein_distance (x # xs) (y # ys) = min (min ?a ?b) ?c" by simp
  then have "Levenshtein_distance (x # xs) (y # ys) \<in> {?a, ?b, ?c}"
    unfolding min_def by (simp only: insert_iff if_split) metis
  with a b c show ?case by auto
qed

lemma Levenshtein_distance_delete:
  "Levenshtein_distance (x # xs) ys \<le> Suc (Levenshtein_distance xs ys)"
  by (cases ys) (simp_all add: min_le_iff_disj Levenshtein_distance_Nil2)

lemma Levenshtein_distance_insert:
  "Levenshtein_distance xs (y # ys) \<le> Suc (Levenshtein_distance xs ys)"
  by (cases xs) (simp_all add: min_le_iff_disj)

lemma Levenshtein_distance_least: "edits xs ys n \<Longrightarrow> Levenshtein_distance xs ys \<le> n"
proof (induction rule: edits.induct)
  case empty
  show ?case by simp
next
  case (keep xs ys n x)
  then show ?case by (simp add: min_le_iff_disj)
next
  case (substitute xs ys n x y)
  then show ?case by (simp add: min_le_iff_disj)
next
  case (delete xs ys n x)
  then show ?case using Levenshtein_distance_delete[of x xs ys] by simp
next
  case (insert xs ys n y)
  then show ?case using Levenshtein_distance_insert[of xs y ys] by simp
qed

text \<open>
  C10. Let \<open>n\<close> be the true Levenshtein distance of \<open>t1\<close> and \<open>t2\<close>: some edit script from
  \<open>t1\<close> to \<open>t2\<close> costs \<open>n\<close> and none costs less. With a finite \<^verbatim>\<open>max_distance\<close>,
  \<^verbatim>\<open>levdist\<close> returns \<open>n\<close> when \<open>n\<close> is at most \<^verbatim>\<open>max_distance\<close>, and the length of the
  longer term when \<open>n\<close> is greater; with the default bound, infinity, it always returns \<open>n\<close>.
\<close>

theorem levdist_clipping:
  assumes "edits t1 t2 n" and "\<forall>m. edits t1 t2 m \<longrightarrow> n \<le> m"
  shows "(real n \<le> max_distance \<longrightarrow> levdist t1 t2 (Finite max_distance) = n) \<and>
         (max_distance < real n \<longrightarrow>
            levdist t1 t2 (Finite max_distance) = max (length t1) (length t2)) \<and>
         levdist t1 t2 Infinity = n"
proof -
  have "Levenshtein_distance t1 t2 \<le> n"
    using assms(1) by (rule Levenshtein_distance_least)
  moreover have "n \<le> Levenshtein_distance t1 t2"
    using assms(2) edits_Levenshtein_distance[of t1 t2] by blast
  ultimately have "Levenshtein_distance t1 t2 = n" by simp
  then show ?thesis by (auto simp add: levdist_def Let_def)
qed

theorem levdist_clipping_witness:
  "levdist ''cat'' ''cars'' (Finite 2) = 2 \<and>
   levdist ''cat'' ''cars'' (Finite 1) = 4 \<and>
   levdist ''cat'' ''cars'' Infinity = 2"
proof -
  have d: "Levenshtein_distance ''cat'' ''cars'' = 2" by simp
  have e: "edits ''cat'' ''cars'' 2"
    using edits_Levenshtein_distance[of "''cat''" "''cars''"] by (simp only: d)
  have l: "\<forall>m. edits ''cat'' ''cars'' m \<longrightarrow> 2 \<le> m"
    using Levenshtein_distance_least[of "''cat''" "''cars''"] by (simp only: d) blast
  show ?thesis
    using levdist_clipping[OF e l, of 2] levdist_clipping[OF e l, of 1] by simp
qed

section \<open>The score\<close>

lemma float_pow_nonneg:
  "0 \<le> x \<Longrightarrow> 0 < y \<Longrightarrow> float_pow x y = Inr (PyFloat (x powr y))"
  by (simp add: float_pow_def)

text \<open>
  With positive \<open>alpha\<close> and \<open>beta\<close> and a clamped threshold of at most \<open>alpha\<close> the distance
  bound is computed without an exception.
\<close>

lemma levsim_max_distance_pos:
  assumes "0 < alpha" "0 < beta" "min ms 1 \<le> alpha"
  shows "levsim_max_distance L alpha beta ms =
    Inr \<lfloor>real L * (1 - (max (min ms 1) 0 / alpha) powr (1 / beta))\<rfloor>"
proof -
  have "0 \<le> max (min ms 1) 0 / alpha" using assms by simp
  moreover have "0 < 1 / beta" using assms by simp
  ultimately have "float_pow (max (min ms 1) 0 / alpha) (1 / beta)
      = Inr (PyFloat ((max (min ms 1) 0 / alpha) powr (1 / beta)))"
    by (rule float_pow_nonneg)
  then show ?thesis using assms(1,2) by (simp add: levsim_max_distance_def Let_def)
qed

text \<open>
  The score of a supplied distance between 0 and the length of the longer term, for
  positive \<open>alpha\<close> and \<open>beta\<close> and a clamped threshold of at most \<open>alpha\<close>: the formula
  of Charlet and Damnati.
\<close>

lemma levsim_supplied:
  assumes "0 < alpha" "0 < beta" "max (length t1) (length t2) = L" "0 < L"
    and "d \<le> int L" "0 \<le> d" "min ms 1 \<le> alpha"
  shows "levsim t1 t2 alpha beta ms (Some d) =
     Inr (PyFloat (alpha * (1 - real_of_int d / real L) powr beta))"
proof -
  have "real_of_int d \<le> real L" using assms(5) by linarith
  then have "real_of_int d / real L \<le> 1" using assms(4) by (simp add: divide_le_eq)
  then have "0 \<le> 1 - real_of_int d / real L" by simp
  then have "float_pow (1 - real_of_int d / real L) beta
      = Inr (PyFloat ((1 - real_of_int d / real L) powr beta))"
    using assms(2) by (rule float_pow_nonneg)
  then show ?thesis
    using assms(1,2,4,7) by (simp add: levsim_def Let_def levsim_max_distance_pos assms(3))
qed

text \<open>
  A supplied distance makes the threshold irrelevant: the bound is computed and dropped.
  The clamped thresholds are at most \<open>alpha\<close>, so that the power of line 102 is at most 1.
\<close>

lemma levsim_ignores_threshold:
  assumes "min ms 1 \<le> alpha" "min ms' 1 \<le> alpha"
  shows "levsim t1 t2 alpha beta ms (Some d) = levsim t1 t2 alpha beta ms' (Some d)"
proof (cases "0 < alpha \<and> 0 < beta")
  case True
  then show ?thesis using assms by (simp add: levsim_def Let_def levsim_max_distance_pos)
next
  case False
  then show ?thesis by (auto simp add: levsim_def Let_def levsim_max_distance_def not_less)
qed

text \<open>
  C8. A call of \<^verbatim>\<open>levsim\<close> with a negative \<open>alpha\<close> or a negative \<open>beta\<close> fails with the
  \<^verbatim>\<open>AssertionError\<close> of the two \<^verbatim>\<open>assert\<close> statements, whatever the other arguments are; a
  call with \<open>alpha \<ge> 0\<close> and \<open>beta \<ge> 0\<close> never raises it.
\<close>

theorem levsim_assertions:
  "(alpha < 0 \<or> beta < 0 \<longrightarrow>
      levsim t1 t2 alpha beta min_similarity distance = Inl AssertionError) \<and>
   (0 \<le> alpha \<and> 0 \<le> beta \<longrightarrow>
      levsim t1 t2 alpha beta min_similarity distance \<noteq> Inl AssertionError)"
proof (intro conjI impI)
  assume "alpha < 0 \<or> beta < 0"
  then show "levsim t1 t2 alpha beta min_similarity distance = Inl AssertionError"
    by (auto simp add: levsim_def)
next
  assume ok: "0 \<le> alpha \<and> 0 \<le> beta"
  have md: "levsim_max_distance L alpha beta min_similarity \<noteq> Inl AssertionError" for L
    by (auto simp add: levsim_max_distance_def float_pow_def Let_def
        split: sum.splits py_number.splits)
  have fp: "float_pow x beta \<noteq> Inl AssertionError" for x
    by (simp add: float_pow_def)
  show "levsim t1 t2 alpha beta min_similarity distance \<noteq> Inl AssertionError"
    using ok md fp by (auto simp add: levsim_def Let_def split: sum.splits)
qed

theorem levsim_assertions_witness:
  "levsim ''a'' ''b'' (- 1) 5 0 None = Inl AssertionError \<and>
   levsim ''a'' ''b'' (18 / 10) (- 5) 0 None = Inl AssertionError \<and>
   levsim ''a'' ''b'' (18 / 10) 5 0 None \<noteq> Inl AssertionError"
  using levsim_assertions[of "- 1" 5 "''a''" "''b''" 0 None]
    levsim_assertions[of "18 / 10" "- 5" "''a''" "''b''" 0 None]
    levsim_assertions[of "18 / 10" 5 "''a''" "''b''" 0 None]
  by simp

text \<open>
  C1. The claim is that for \<open>alpha \<ge> 0\<close> and \<open>beta \<ge> 0\<close> a call with a supplied distance
  returns \<open>alpha * (1 - d / max_lengths) ^ beta\<close>. Both asserts accept zero, but line 102
  divides by \<open>alpha\<close> and by \<open>beta\<close>: with \<open>alpha = 0\<close> or \<open>beta = 0\<close> and a non-empty term
  the call raises \<^verbatim>\<open>ZeroDivisionError\<close> and returns nothing.
\<close>

theorem levsim_zero_alpha_or_beta_raises:
  "levsim ''a'' ''b'' 0 5 0 (Some 1) = Inl ZeroDivisionError \<and>
   levsim ''a'' ''b'' (18 / 10) 0 0 (Some 1) = Inl ZeroDivisionError"
  by (simp add: levsim_def levsim_max_distance_def)




subsection \<open>The distance bound of line 102\<close>

text \<open>
  At the threshold 0, which is the default, the bound is the whole length: it excludes no
  edit distance. With \<open>beta = 2\<close> the score of the next number, which is no distance of
  two such terms, is positive.
\<close>

lemma levsim_max_distance_not_tight_at_zero:
  "levsim_max_distance 1 1 2 0 = Inr 1 \<and>
   levsim ''a'' ''b'' 1 2 0 (Some (1 + 1)) = Inr (PyFloat 1) \<and>
   \<not> (1 :: real) < 0"
  by (simp add: levsim_def levsim_max_distance_def float_pow_def)

text \<open>
  The formula of line 102 inverts the formula of line 105. This is a property of the two
  formulas in exact arithmetic, not of their evaluation in floats: for positive \<open>alpha\<close>
  and \<open>beta\<close>, terms whose longer length is \<open>L > 0\<close> and a threshold \<open>min_similarity > 0\<close>,
  of clamped value \<open>min min_similarity 1\<close> at most \<open>alpha\<close>, the exact bound \<open>d\<close> is tight for
  the clamped threshold: the exact
  score of distance \<open>d\<close> is at least the clamped threshold and the exact score of distance
  \<open>d + 1\<close> is below it.
\<close>

lemma exact_bound_tight:
  assumes "0 < alpha" "0 < beta"
    and "max (length t1) (length t2) = L" "0 < L"
    and "0 < min_similarity" "min min_similarity 1 \<le> alpha"
  shows "\<exists>d s s'. levsim_max_distance L alpha beta min_similarity = Inr d \<and>
           levsim t1 t2 alpha beta min_similarity (Some d) = Inr (PyFloat s) \<and>
           min min_similarity 1 \<le> s \<and>
           levsim t1 t2 alpha beta min_similarity (Some (d + 1)) = Inr (PyFloat s') \<and>
           s' < min min_similarity 1"
proof -
  define m where "m = min min_similarity 1"
  define p where "p = (m / alpha) powr (1 / beta)"
  define d where "d = \<lfloor>real L * (1 - p)\<rfloor>"
  have m: "0 < m" "max (min min_similarity 1) 0 = m" using assms(5) by (simp_all add: m_def)
  have md: "levsim_max_distance L alpha beta min_similarity = Inr d"
    using assms(1,2,6) by (simp add: levsim_max_distance_pos m d_def p_def)
  have "0 < m / alpha" using m(1) assms(1) by simp
  then have p: "0 < p" using m(1) assms(1) by (simp add: p_def)
  have pb: "p powr beta = m / alpha"
    using assms(1,2) m(1) by (simp add: p_def powr_powr)
  have L: "0 < real L" using assms(4) by simp
  have lo: "real_of_int d \<le> real L * (1 - p)" unfolding d_def by (rule of_int_floor_le)
  have hi: "real L * (1 - p) < real_of_int (d + 1)" unfolding d_def by linarith
  have "real_of_int d / real L \<le> 1 - p" using lo L by (simp add: divide_le_eq mult.commute)
  then have b1: "p \<le> 1 - real_of_int d / real L" by simp
  have "real L * (1 - p) < real L" using L p by simp
  with lo have "real_of_int d < real L" by linarith
  then have dL: "d + 1 \<le> int L" by linarith
  then have dL': "d \<le> int L" by simp
  have "\<bar>m / alpha\<bar> \<le> 1" using assms(1,6) m(1) by (simp add: m_def)
  moreover have "0 \<le> 1 / beta" using assms(2) by simp
  ultimately have "p \<le> 1" unfolding p_def by (rule powr_le1[rotated])
  then have "0 \<le> real L * (1 - p)" by simp
  then have d0: "0 \<le> d" unfolding d_def by simp
  then have d0': "0 \<le> d + 1" by simp
  have "1 - p < real_of_int (d + 1) / real L"
    using hi L by (simp add: less_divide_eq mult.commute)
  then have b2: "1 - real_of_int (d + 1) / real L < p" by simp
  have "real_of_int (d + 1) \<le> real L" using dL by linarith
  then have "real_of_int (d + 1) / real L \<le> 1" using L by (simp add: divide_le_eq)
  then have b2': "0 \<le> 1 - real_of_int (d + 1) / real L" by simp
  have l1: "levsim t1 t2 alpha beta min_similarity (Some d)
       = Inr (PyFloat (alpha * (1 - real_of_int d / real L) powr beta))"
    using assms(1,2,3,4) dL' d0 assms(6) by (rule levsim_supplied)
  have l2: "levsim t1 t2 alpha beta min_similarity (Some (d + 1))
       = Inr (PyFloat (alpha * (1 - real_of_int (d + 1) / real L) powr beta))"
    using assms(1,2,3,4) dL d0' assms(6) by (rule levsim_supplied)
  have "p powr beta \<le> (1 - real_of_int d / real L) powr beta"
    using b1 p assms(2) by (simp add: powr_mono2)
  then have s1: "m \<le> alpha * (1 - real_of_int d / real L) powr beta"
    using assms(1) by (simp add: pb pos_divide_le_eq mult.commute)
  have "(1 - real_of_int (d + 1) / real L) powr beta < p powr beta"
    using b2 b2' assms(2) by (simp add: powr_less_mono2)
  then have s2: "alpha * (1 - real_of_int (d + 1) / real L) powr beta < m"
    using assms(1) by (simp add: pb pos_less_divide_eq mult.commute)
  show ?thesis using md l1 l2 s1 s2 unfolding m_def by blast
qed


section \<open>The most similar terms\<close>

lemma similarities_ignores_threshold:
  assumes "min x 1 \<le> self_alpha self" "min y 1 \<le> self_alpha self"
  shows "similarities (self\<lparr>self_threshold := x\<rparr>) t1 ms =
   similarities (self\<lparr>self_threshold := y\<rparr>) t1 ms"
proof (induction ms)
  case Nil
  show ?case by simp
next
  case (Cons a ms)
  obtain e t2 where a: "a = (e, t2)" by (cases a)
  have "levsim t1 t2 (self_alpha self) (self_beta self) x (Some e)
      = levsim t1 t2 (self_alpha self) (self_beta self) y (Some e)"
    using assms by (rule levsim_ignores_threshold)
  then show ?case using Cons.IH by (auto simp add: a cong: sum.case_cong)
qed

text \<open>
  The threshold of the index has no effect on the result of \<^verbatim>\<open>most_similar\<close>: the
  traversal is run with \<^verbatim>\<open>self.max_distance\<close> alone, and every score is computed from
  the distance that the traversal supplies. Any two thresholds whose clamped values are
  at most \<open>alpha\<close> give the same result or the same exception.
\<close>

lemma most_similar_ignores_threshold:
  assumes "min x 1 \<le> self_alpha self" "min y 1 \<le> self_alpha self"
  shows "most_similar isect (self\<lparr>self_threshold := x\<rparr>) t1 topn =
   most_similar isect (self\<lparr>self_threshold := y\<rparr>) t1 topn"
  by (simp add: most_similar_def similarities_ignores_threshold[OF assms])

lemma similarities_terms:
  "similarities self t1 ms = Inr sims \<Longrightarrow> snd ` set sims \<subseteq> snd ` set ms - {t1}"
proof (induction ms arbitrary: sims)
  case Nil
  then show ?case by simp
next
  case (Cons a ms)
  obtain e t2 where a: "a = (e, t2)" by (cases a)
  show ?case
  proof (cases "t1 = t2")
    case True
    with Cons.prems have "similarities self t1 ms = Inr sims" by (simp add: a)
    from Cons.IH[OF this] show ?thesis by (auto simp add: a)
  next
    case False
    with Cons.prems obtain sim sims' where
      "similarities self t1 ms = Inr sims'" and s: "sims = (sim, t2) # sims'"
      by (auto simp add: a split: sum.splits)
    from Cons.IH[OF this(1)] False show ?thesis by (auto simp add: a s)
  qed
qed

lemma positive_similarities_terms:
  "positive_similarities sims = Inr xs \<Longrightarrow> fst ` set xs \<subseteq> snd ` set sims"
proof (induction sims arbitrary: xs rule: positive_similarities.induct)
  case 1
  then show ?case by simp
next
  case (2 z t2 rest)
  then show ?case by simp
next
  case (3 sim t2 rest)
  from "3.prems" obtain ys where ys: "positive_similarities rest = Inr ys"
    and xs: "xs = (if sim > 0 then (t2, sim) # ys else ys)"
    by (auto split: sum.splits)
  from "3.IH"[OF ys] show ?case by (auto simp add: xs)
qed

lemma length_positive_similarities:
  "similarities self t1 ms = Inr sims \<Longrightarrow> positive_similarities sims = Inr xs \<Longrightarrow>
     length xs = length (positive_matches self t1 ms)"
proof (induction ms arbitrary: sims xs)
  case Nil
  then show ?case by (simp add: positive_matches_def)
next
  case (Cons a ms)
  obtain e t2 where a: "a = (e, t2)" by (cases a)
  show ?case
  proof (cases "t1 = t2")
    case True
    with Cons.prems have "similarities self t1 ms = Inr sims" by (simp add: a)
    from Cons.IH[OF this Cons.prems(2)] True show ?thesis
      by (simp add: a positive_matches_def)
  next
    case False
    with Cons.prems(1) obtain sim sims' where
      l: "levsim t1 t2 (self_alpha self) (self_beta self) (self_threshold self) (Some e) = Inr sim"
      and s': "similarities self t1 ms = Inr sims'" and s: "sims = (sim, t2) # sims'"
      by (auto simp add: a split: sum.splits)
    from Cons.prems(2) obtain v ys where v: "sim = PyFloat v"
      and ys: "positive_similarities sims' = Inr ys"
      and xs: "xs = (if v > 0 then (t2, v) # ys else ys)"
      by (cases sim) (auto simp add: s split: sum.splits)
    from Cons.IH[OF s' ys] False show ?thesis
      by (simp add: a positive_matches_def l v xs)
  qed
qed

lemma set_slice_to: "set (slice_to xs n) \<subseteq> set xs"
  by (auto simp add: slice_to_def dest: in_set_takeD)

lemma length_slice_to: "0 \<le> n \<Longrightarrow> length (slice_to xs n) = min (nat n) (length xs)"
  by (simp add: slice_to_def)

lemma sorted_wrt_slice_to: "sorted_wrt P xs \<Longrightarrow> sorted_wrt P (slice_to xs n)"
  by (simp add: slice_to_def sorted_wrt_take)

lemma sorted_by_negated_score:
  "sorted_wrt (\<lambda>a b. snd b \<le> snd a) (sort_key (\<lambda>item. - snd item) (xs :: ('a \<times> real) list))"
proof -
  have "sorted (map (\<lambda>item. - snd item) (sort_key (\<lambda>item. - snd item) xs))"
    by (rule sorted_sort_key)
  then show ?thesis by (simp add: sorted_map)
qed

lemma most_similar_Inr:
  assumes "most_similar isect self t1 topn = Inr result"
  obtains sims xs where
    "similarities self t1 (isect (self_max_distance self) t1 (self_words self)) = Inr sims"
    "positive_similarities sims = Inr xs"
    "result = slice_to (sort_key (\<lambda>item. - snd item) xs) topn"
  using assms by (auto simp add: most_similar_def split: sum.splits)

subsection \<open>When \<^verbatim>\<open>most_similar\<close> returns\<close>

lemma similarities_floats:
  assumes "0 < self_alpha self" "0 < self_beta self"
    and "min (self_threshold self) 1 \<le> self_alpha self"
  shows "(\<forall>(e, t2) \<in> set ms. 0 \<le> e \<and> e \<le> int (max (length t1) (length t2))) \<Longrightarrow>
    \<exists>sims. similarities self t1 ms = Inr sims \<and> (\<forall>(s, t) \<in> set sims. \<exists>v. s = PyFloat v)"
proof (induction ms)
  case Nil
  show ?case by simp
next
  case (Cons a ms)
  obtain e t2 where a: "a = (e, t2)" by (cases a)
  from Cons obtain sims where s: "similarities self t1 ms = Inr sims"
    and f: "\<forall>(s, t) \<in> set sims. \<exists>v. s = PyFloat v" by auto
  show ?case
  proof (cases "t1 = t2")
    case True
    then show ?thesis using s f by (simp add: a)
  next
    case False
    then have L: "0 < max (length t1) (length t2)" by (cases t1; cases t2) auto
    have e: "e \<le> int (max (length t1) (length t2))" "0 \<le> e"
      using Cons.prems by (simp_all add: a)
    have "levsim t1 t2 (self_alpha self) (self_beta self) (self_threshold self) (Some e) =
      Inr (PyFloat (self_alpha self *
        (1 - real_of_int e / real (max (length t1) (length t2))) powr self_beta self))"
      using assms(1,2) refl L e assms(3) by (rule levsim_supplied)
    then show ?thesis using False s f by (simp add: a)
  qed
qed

lemma positive_similarities_floats:
  "(\<forall>(s, t) \<in> set sims. \<exists>v. s = PyFloat v) \<Longrightarrow> \<exists>xs. positive_similarities sims = Inr xs"
proof (induction sims rule: positive_similarities.induct)
  case 1
  show ?case by simp
next
  case (2 z t2 rest)
  then show ?case by simp
next
  case (3 sim t2 rest)
  then obtain ys where "positive_similarities rest = Inr ys" by auto
  then show ?case by simp
qed

text \<open>
  With positive \<open>alpha\<close> and \<open>beta\<close>, a clamped threshold of at most \<open>alpha\<close> and a traversal
  whose distances lie between 0 and the length of the longer term, as edit distances do,
  \<^verbatim>\<open>most_similar\<close> raises nothing.
\<close>

lemma most_similar_returns:
  assumes "0 < self_alpha self" "0 < self_beta self"
    and "min (self_threshold self) 1 \<le> self_alpha self"
    and "\<forall>(e, t2) \<in> set (isect (self_max_distance self) t1 (self_words self)).
           0 \<le> e \<and> e \<le> int (max (length t1) (length t2))"
  shows "\<exists>result. most_similar isect self t1 topn = Inr result"
proof -
  from similarities_floats[OF assms] obtain sims where
    s: "similarities self t1 (isect (self_max_distance self) t1 (self_words self)) = Inr sims"
    and f: "\<forall>(s, t) \<in> set sims. \<exists>v. s = PyFloat v" by blast
  from positive_similarities_floats[OF f] obtain xs where "positive_similarities sims = Inr xs" ..
  with s show ?thesis by (simp add: most_similar_def)
qed

lemma trie_automaton_intersection_bounded:
  "\<forall>(e, t2) \<in> set (trie_automaton_intersection k t1 ws).
     0 \<le> e \<and> e \<le> int (max (length t1) (length t2))"
  using Levenshtein_distance_le_max[of t1] by (auto simp add: trie_automaton_intersection_def)

subsection \<open>The example index\<close>

lemma example_traversal:
  "trie_automaton_intersection 1 ''cat'' [''dog'', ''bat'', ''cat'', ''cats''] =
     [(1, ''bat''), (0, ''cat''), (1, ''cats'')]"
  by (simp add: trie_automaton_intersection_def)

lemma example_most_similar:
  "most_similar trie_automaton_intersection example_index ''cat'' 10 =
     Inr [(''cats'', 3 / 4), (''bat'', 2 / 3)]"
  "most_similar trie_automaton_intersection example_index ''cat'' 1 = Inr [(''cats'', 3 / 4)]"
  by (simp_all add: most_similar_def example_index_def example_traversal levsim_def
      levsim_max_distance_def float_pow_def slice_to_def)

lemma example_positive_matches:
  "positive_matches example_index ''cat''
     (trie_automaton_intersection (self_max_distance example_index) ''cat''
        (self_words example_index)) = [(1, ''bat''), (1, ''cats'')]"
  by (simp add: positive_matches_def example_index_def example_traversal levsim_def
      levsim_max_distance_def float_pow_def)

subsection \<open>The properties of the result\<close>

text \<open>
  C5. Whatever the traversal yields and whatever \<open>topn\<close> is, a result of \<^verbatim>\<open>most_similar\<close>
  for the query \<open>t1\<close> never holds \<open>t1\<close> itself, also when \<open>t1\<close> is a term of the vocabulary.
\<close>

theorem most_similar_excludes_query:
  assumes "most_similar isect self t1 topn = Inr result"
  shows "t1 \<notin> fst ` set result"
proof -
  from assms obtain sims xs where
    s: "similarities self t1 (isect (self_max_distance self) t1 (self_words self)) = Inr sims"
    and p: "positive_similarities sims = Inr xs"
    and r: "result = slice_to (sort_key (\<lambda>item. - snd item) xs) topn"
    by (rule most_similar_Inr)
  have "set result \<subseteq> set xs"
    using set_slice_to[of "sort_key (\<lambda>item. - snd item) xs" topn] by (simp add: r)
  then have "fst ` set result \<subseteq> fst ` set xs" by (rule image_mono)
  also have "\<dots> \<subseteq> snd ` set sims" using p by (rule positive_similarities_terms)
  also have "\<dots> \<subseteq> snd ` set (isect (self_max_distance self) t1 (self_words self)) - {t1}"
    using s by (rule similarities_terms)
  finally show ?thesis by blast
qed

theorem most_similar_excludes_query_witness:
  "''cat'' \<in> set (self_words example_index) \<and>
   most_similar trie_automaton_intersection example_index ''cat'' 10 =
     Inr [(''cats'', 3 / 4), (''bat'', 2 / 3)] \<and>
   ''cat'' \<notin> fst ` set [(''cats'', 3 / 4 :: real), (''bat'', 2 / 3)]"
  using most_similar_excludes_query[OF example_most_similar(1)] example_most_similar(1)
  by (simp add: example_index_def)

text \<open>
  The length of a result, whenever \<^verbatim>\<open>most_similar\<close> returns one.
\<close>

lemma most_similar_Inr_length:
  assumes "most_similar isect self t1 topn = Inr result" and "0 \<le> topn"
  shows "length result =
     min (nat topn)
       (length (positive_matches self t1 (isect (self_max_distance self) t1 (self_words self))))"
proof -
  from assms(1) obtain sims xs where
    s: "similarities self t1 (isect (self_max_distance self) t1 (self_words self)) = Inr sims"
    and p: "positive_similarities sims = Inr xs"
    and r: "result = slice_to (sort_key (\<lambda>item. - snd item) xs) topn"
    by (rule most_similar_Inr)
  have "length result = min (nat topn) (length xs)"
    using assms(2) by (simp add: r length_slice_to)
  also have "length xs =
      length (positive_matches self t1 (isect (self_max_distance self) t1 (self_words self)))"
    using s p by (rule length_positive_similarities)
  finally show ?thesis .
qed

lemma zero_score_traversal:
  "trie_automaton_intersection 1 ''a'' [''a'', ''b'', ''ab''] =
     [(0, ''a''), (1, ''b''), (1, ''ab'')]"
  by (simp add: trie_automaton_intersection_def)

lemma zero_score_most_similar:
  "most_similar trie_automaton_intersection zero_score_index ''a'' 10 = Inr [(''ab'', 1 / 2)]"
  by (simp add: most_similar_def zero_score_index_def zero_score_traversal levsim_def
      levsim_max_distance_def float_pow_def slice_to_def)

lemma zero_score_positive_matches:
  "positive_matches zero_score_index ''a''
     (trie_automaton_intersection (self_max_distance zero_score_index) ''a''
        (self_words zero_score_index)) = [(1, ''ab'')]"
  by (simp add: positive_matches_def zero_score_index_def zero_score_traversal levsim_def
      levsim_max_distance_def float_pow_def)

text \<open>
  C6. For a non-negative \<open>topn\<close>, the length of a result of \<^verbatim>\<open>most_similar\<close> is the minimum
  of \<open>topn\<close> and the number of matches of the traversal, other than the query itself,
  whose score is greater than zero. This holds of every result, for every index and
  traversal. And a match with a score of zero is dropped, it does not stop the call:
  for positive \<open>alpha\<close> and \<open>beta\<close>, a clamped threshold of at most \<open>alpha\<close> and a traversal
  whose distances lie between 0 and the length of the longer term, as edit distances
  do, \<^verbatim>\<open>most_similar\<close> returns a result, of that length.
\<close>

theorem most_similar_length:
  assumes "0 \<le> topn"
  shows "(\<forall>result. most_similar isect self t1 topn = Inr result \<longrightarrow>
            length result =
              min (nat topn)
                (length (positive_matches self t1
                   (isect (self_max_distance self) t1 (self_words self))))) \<and>
         (0 < self_alpha self \<and> 0 < self_beta self \<and>
          min (self_threshold self) 1 \<le> self_alpha self \<and>
          (\<forall>(e, t2) \<in> set (isect (self_max_distance self) t1 (self_words self)).
             0 \<le> e \<and> e \<le> int (max (length t1) (length t2))) \<longrightarrow>
          (\<exists>result. most_similar isect self t1 topn = Inr result \<and>
             length result =
               min (nat topn)
                 (length (positive_matches self t1
                    (isect (self_max_distance self) t1 (self_words self))))))"
proof (intro conjI allI impI)
  fix result
  assume "most_similar isect self t1 topn = Inr result"
  then show "length result =
      min (nat topn)
        (length (positive_matches self t1 (isect (self_max_distance self) t1 (self_words self))))"
    using assms by (rule most_similar_Inr_length)
next
  assume valid: "0 < self_alpha self \<and> 0 < self_beta self \<and>
          min (self_threshold self) 1 \<le> self_alpha self \<and>
          (\<forall>(e, t2) \<in> set (isect (self_max_distance self) t1 (self_words self)).
             0 \<le> e \<and> e \<le> int (max (length t1) (length t2)))"
  then obtain result where r: "most_similar isect self t1 topn = Inr result"
    using most_similar_returns[of self isect t1 topn] by blast
  from r assms have "length result =
      min (nat topn)
        (length (positive_matches self t1 (isect (self_max_distance self) t1 (self_words self))))"
    by (rule most_similar_Inr_length)
  with r show "\<exists>result. most_similar isect self t1 topn = Inr result \<and>
      length result =
        min (nat topn)
          (length (positive_matches self t1 (isect (self_max_distance self) t1 (self_words self))))"
    by blast
qed

text \<open>
  At the index with a match of score zero: the traversal yields the query \<^verbatim>\<open>a\<close>, the
  term \<^verbatim>\<open>b\<close> with the score 0 and the term \<^verbatim>\<open>ab\<close> with the score \<open>1 / 2\<close>; the call returns,
  and its result has the one term with a positive score. At the first example index
  with \<open>topn = 1\<close> the result is cut to one of the two terms with a positive score.
\<close>

theorem most_similar_length_witness:
  "trie_automaton_intersection (self_max_distance zero_score_index) ''a''
     (self_words zero_score_index) = [(0, ''a''), (1, ''b''), (1, ''ab'')] \<and>
   levsim ''a'' ''b'' 1 1 0 (Some 1) = Inr (PyFloat 0) \<and>
   levsim ''a'' ''ab'' 1 1 0 (Some 1) = Inr (PyFloat (1 / 2)) \<and>
   (\<exists>result. most_similar trie_automaton_intersection zero_score_index ''a'' 10 = Inr result \<and>
      length result =
        min (nat 10)
          (length (positive_matches zero_score_index ''a''
             (trie_automaton_intersection (self_max_distance zero_score_index) ''a''
                (self_words zero_score_index))))) \<and>
   most_similar trie_automaton_intersection zero_score_index ''a'' 10 = Inr [(''ab'', 1 / 2)] \<and>
   length (positive_matches zero_score_index ''a''
     (trie_automaton_intersection (self_max_distance zero_score_index) ''a''
        (self_words zero_score_index))) = 1 \<and>
   most_similar trie_automaton_intersection example_index ''cat'' 1 = Inr [(''cats'', 3 / 4)] \<and>
   length [(''cats'', 3 / 4 :: real)] =
     min (nat 1)
       (length (positive_matches example_index ''cat''
          (trie_automaton_intersection (self_max_distance example_index) ''cat''
             (self_words example_index)))) \<and>
   length (positive_matches example_index ''cat''
     (trie_automaton_intersection (self_max_distance example_index) ''cat''
        (self_words example_index))) = 2"
proof -
  have t: "trie_automaton_intersection (self_max_distance zero_score_index) ''a''
     (self_words zero_score_index) = [(0, ''a''), (1, ''b''), (1, ''ab'')]"
    by (simp add: zero_score_index_def zero_score_traversal)
  have valid: "0 < self_alpha zero_score_index \<and> 0 < self_beta zero_score_index \<and>
      min (self_threshold zero_score_index) 1 \<le> self_alpha zero_score_index \<and>
      (\<forall>(e, t2) \<in> set (trie_automaton_intersection (self_max_distance zero_score_index) ''a''
                        (self_words zero_score_index)).
         0 \<le> e \<and> e \<le> int (max (length ''a'') (length t2)))"
    unfolding t by (simp add: zero_score_index_def)
  have scores: "levsim ''a'' ''b'' 1 1 0 (Some 1) = Inr (PyFloat 0)"
    "levsim ''a'' ''ab'' 1 1 0 (Some 1) = Inr (PyFloat (1 / 2))"
    by (simp_all add: levsim_def levsim_max_distance_def float_pow_def)
  have zero: "\<exists>result.
      most_similar trie_automaton_intersection zero_score_index ''a'' 10 = Inr result \<and>
      length result =
        min (nat 10)
          (length (positive_matches zero_score_index ''a''
             (trie_automaton_intersection (self_max_distance zero_score_index) ''a''
                (self_words zero_score_index))))"
    using most_similar_length[of 10 trie_automaton_intersection zero_score_index "''a''"] valid
    by simp
  have cut: "length [(''cats'', 3 / 4 :: real)] =
     min (nat 1)
       (length (positive_matches example_index ''cat''
          (trie_automaton_intersection (self_max_distance example_index) ''cat''
             (self_words example_index))))"
    using most_similar_length[of 1 trie_automaton_intersection example_index "''cat''"]
      example_most_similar(2)
    by simp
  show ?thesis
    using t scores zero cut zero_score_most_similar example_most_similar(2)
    by (simp add: zero_score_positive_matches example_positive_matches)
qed

text \<open>
  C7. The pairs of a result of \<^verbatim>\<open>most_similar\<close> are in descending order of their
  similarity: no pair has a greater similarity than a pair before it.
\<close>

theorem most_similar_sorted_descending:
  assumes "most_similar isect self t1 topn = Inr result"
  shows "sorted_wrt (\<lambda>a b. snd b \<le> snd a) result"
proof -
  from assms obtain sims xs where
    r: "result = slice_to (sort_key (\<lambda>item. - snd item) xs) topn"
    by (rule most_similar_Inr)
  show ?thesis unfolding r by (rule sorted_wrt_slice_to) (rule sorted_by_negated_score)
qed

theorem most_similar_sorted_descending_witness:
  "most_similar trie_automaton_intersection example_index ''cat'' 10 =
     Inr [(''cats'', 3 / 4), (''bat'', 2 / 3)] \<and>
   sorted_wrt (\<lambda>a b. snd b \<le> snd a) [(''cats'', 3 / 4 :: real), (''bat'', 2 / 3)]"
  using most_similar_sorted_descending[OF example_most_similar(1)] example_most_similar(1)
  by simp

text \<open>
  C3. The claim is that the automaton is given the minimum of \<^verbatim>\<open>self.max_distance\<close> and
  the bound derived from the threshold, so that the threshold restricts the matches.
  The code gives it \<^verbatim>\<open>self.max_distance\<close>. With threshold 1, \<open>alpha = 1\<close> and \<open>beta = 5\<close>
  the derived bound is 0 for terms of length 3 and 4, yet the terms at distance 1 are
  returned, with scores below the threshold.
\<close>

theorem most_similar_threshold_not_applied:
  "levsim_max_distance 3 1 5 1 = Inr 0 \<and> levsim_max_distance 4 1 5 1 = Inr 0 \<and>
   most_similar trie_automaton_intersection
     \<lparr>self_alpha = 1, self_beta = 5, self_threshold = 1, self_max_distance = 1,
      self_words = [''cat'', ''cats'', ''bat'', ''dog'']\<rparr> ''cat'' 10
   = Inr [(''cats'', 243 / 1024), (''bat'', 32 / 243)]"
  by (simp add: most_similar_def trie_automaton_intersection_def levsim_def
      levsim_max_distance_def float_pow_def slice_to_def power_divide)

text \<open>
  C4, as stated, gives the score of \<^verbatim>\<open>bat\<close> as about 0.1580. The score is
  \<open>1.8 * (2 / 3) ^ 5 = 32 / 135\<close>, about 0.2370, and differs from 0.1580 by more than
  0.07; the score of \<^verbatim>\<open>cats\<close> is \<open>1.8 * (3 / 4) ^ 5 = 2187 / 5120\<close>, about 0.4271.
\<close>

theorem levsim_cat_bat_score:
  "levsim ''cat'' ''bat'' (18 / 10) 5 0 (Some 1) = Inr (PyFloat (32 / 135)) \<and>
   levsim ''cat'' ''cats'' (18 / 10) 5 0 (Some 1) = Inr (PyFloat (2187 / 5120)) \<and>
   (7 / 100 :: real) < \<bar>32 / 135 - 1580 / 10000\<bar>"
  by (simp add: levsim_def levsim_max_distance_def float_pow_def power_divide)

text \<open>
  C4, amended. With the vocabulary \<^verbatim>\<open>cat\<close>, \<^verbatim>\<open>cats\<close>, \<^verbatim>\<open>bat\<close>, \<^verbatim>\<open>dog\<close>, the query
  \<^verbatim>\<open>cat\<close>, \<^verbatim>\<open>max_distance = 1\<close>, threshold 0, \<open>alpha = 1.8\<close> and \<open>beta = 5\<close>,
  \<^verbatim>\<open>most_similar("cat", 10)\<close> returns \<^verbatim>\<open>cats\<close> with the score \<open>2187 / 5120\<close> (about 0.4271)
  and then \<^verbatim>\<open>bat\<close> with the score \<open>32 / 135\<close> (about 0.2370).
\<close>

theorem most_similar_cat_scenario:
  "most_similar trie_automaton_intersection
     \<lparr>self_alpha = 18 / 10, self_beta = 5, self_threshold = 0, self_max_distance = 1,
      self_words = [''cat'', ''cats'', ''bat'', ''dog'']\<rparr> ''cat'' 10
   = Inr [(''cats'', 2187 / 5120), (''bat'', 32 / 135)]"
  by (simp add: most_similar_def trie_automaton_intersection_def levsim_def
      levsim_max_distance_def float_pow_def slice_to_def power_divide)

section \<open>Further properties\<close>

text \<open>
  The score formula where the code computes it: two empty terms score 1 for any valid
  \<open>alpha\<close> and \<open>beta\<close>; otherwise, for positive \<open>alpha\<close> and \<open>beta\<close>, a clamped threshold of
  at most \<open>alpha\<close> and a supplied distance \<open>d\<close> between 0 and the longer length \<open>L\<close>, the
  score is \<open>alpha * (1 - d / L) powr beta\<close>.
\<close>

theorem levsim_formula:
  "(0 \<le> alpha \<and> 0 \<le> beta \<longrightarrow> levsim [] [] alpha beta ms distance = Inr (PyFloat 1)) \<and>
   (0 < alpha \<and> 0 < beta \<and> max (length t1) (length t2) = L \<and> 0 < L \<and>
    0 \<le> d \<and> d \<le> int L \<and> min ms 1 \<le> alpha \<longrightarrow>
      levsim t1 t2 alpha beta ms (Some d) =
        Inr (PyFloat (alpha * (1 - real_of_int d / real L) powr beta)))"
proof (intro conjI impI)
  assume "0 \<le> alpha \<and> 0 \<le> beta"
  then show "levsim [] [] alpha beta ms distance = Inr (PyFloat 1)"
    by (simp add: levsim_def)
next
  assume a: "0 < alpha \<and> 0 < beta \<and> max (length t1) (length t2) = L \<and> 0 < L \<and>
    0 \<le> d \<and> d \<le> int L \<and> min ms 1 \<le> alpha"
  show "levsim t1 t2 alpha beta ms (Some d) =
        Inr (PyFloat (alpha * (1 - real_of_int d / real L) powr beta))"
    by (rule levsim_supplied) (use a in simp_all)
qed

theorem levsim_formula_witness:
  "levsim [] [] (18 / 10) 5 0 None = Inr (PyFloat 1) \<and>
   levsim ''cat'' ''cats'' (18 / 10) 5 0 (Some 1) =
     Inr (PyFloat (18 / 10 * (1 - real_of_int 1 / real 4) powr 5))"
  using levsim_formula[of "18 / 10" 5 0 None "''cat''" "''cats''" 4 1]
  by simp

theorem most_similar_returns_witness:
  "\<exists>result. most_similar trie_automaton_intersection example_index ''cat'' 10 = Inr result"
  using most_similar_returns[of example_index trie_automaton_intersection "''cat''" 10]
    trie_automaton_intersection_bounded[of "self_max_distance example_index" "''cat''"
      "self_words example_index"]
  by (simp add: example_index_def)

end
